theory Spec2Isabelle
  imports Main "HOL-Library.Multiset" "HOL-Library.Char_ord" "HOL-Library.List_Lexorder"
begin

section \<open>Strings as Python handles them in model.py\<close>

text \<open>
  Drug names are ASCII text, a list of characters. \<open>str.lower\<close> maps the letters
  A to Z to a to z and leaves every other character alone; \<open>str.strip\<close> removes the
  white space of \<open>str.isspace\<close> (tab, line feed, vertical tab, form feed, carriage
  return, the four separators 0x1C to 0x1F and the blank) from both ends. Strings are
  compared as Python compares them, character by character and a proper prefix first
  (the list order of the library over the character codes).
\<close>

definition lower_char :: "char \<Rightarrow> char" where
  "lower_char c =
     (if CHR ''A'' \<le> c \<and> c \<le> CHR ''Z'' then char_of (of_char c + (32::nat)) else c)"

definition lower :: "string \<Rightarrow> string" where
  "lower s = map lower_char s"

definition is_space :: "char \<Rightarrow> bool" where
  "is_space c \<longleftrightarrow>
     c \<in> {CHR 0x09, CHR 0x0A, CHR 0x0B, CHR 0x0C, CHR 0x0D,
          CHR 0x1C, CHR 0x1D, CHR 0x1E, CHR 0x1F, CHR 0x20}"

definition strip :: "string \<Rightarrow> string" where
  "strip s = rev (dropWhile is_space (rev (dropWhile is_space s)))"

section \<open>The reference dataset\<close>

text \<open>
  The document that \<open>load_db\<close> reads, as \<open>DrugDB\<close> uses it: \<open>db["drugs"]\<close> and
  \<open>db["interactions"]\<close> are read by index and are lists; \<open>max_daily_dose_mg\<close> and
  \<open>alternatives\<close> are read with \<open>get\<close> and a default of the empty dict, so an absent
  table is the empty map. Inside a drug record \<open>name\<close> is read by index, the doses with
  \<open>get\<close> (absent is \<open>None\<close>) and the aliases with \<open>get\<close> and the default \<open>[]\<close>.
\<close>

record drug_record =
  name :: string
  adult_dose :: "string option"
  child_dose :: "string option"
  aliases :: "string list"

record max_dose =
  adult :: "int option"
  child :: "int option"

record interaction =
  pair :: "string list"
  severity :: string
  note_text :: string

record drug_db =
  db_drugs :: "drug_record list"
  db_max_daily_dose_mg :: "string \<rightharpoonup> max_dose"
  db_interactions :: "interaction list"
  db_alternatives :: "string \<rightharpoonup> string list"

section \<open>DrugDB\<close>

definition list_drugs :: "drug_db \<Rightarrow> string list" where
  "list_drugs db = map name (db_drugs db)"

text \<open>
  \<open>normalize\<close>: the loop over \<open>db["drugs"]\<close> returns at the first record whose
  lower-cased name is \<open>n\<close> or whose lower-cased aliases contain \<open>n\<close>.
\<close>

fun normalize_loop :: "string \<Rightarrow> drug_record list \<Rightarrow> string option" where
  "normalize_loop n [] = None"
| "normalize_loop n (d # ds) =
     (if lower (name d) = n \<or> n \<in> set (map lower (aliases d)) then Some (name d)
      else normalize_loop n ds)"

definition normalize :: "drug_db \<Rightarrow> string \<Rightarrow> string option" where
  "normalize db nm = normalize_loop (strip (lower nm)) (db_drugs db)"

text \<open>
  \<open>age_group\<close> lives in \<open>utils\<close>, which is not part of the sources at hand: the two
  lookups below take it as the parameter \<open>ag\<close>, from an age to the name of its bracket.
  \<open>next((x for x in drugs if x["name"] == drug), None)\<close> is the first record with
  exactly that name.
\<close>

fun first_named :: "string \<Rightarrow> drug_record list \<Rightarrow> drug_record option" where
  "first_named drug [] = None"
| "first_named drug (x # xs) = (if name x = drug then Some x else first_named drug xs)"

definition pediatric :: "string \<Rightarrow> bool" where
  "pediatric grp \<longleftrightarrow> grp = ''child'' \<or> grp = ''adolescent''"

definition default_dose_for_age ::
  "drug_db \<Rightarrow> (int \<Rightarrow> string) \<Rightarrow> string \<Rightarrow> int \<Rightarrow> string option" where
  "default_dose_for_age db ag drug age =
     (case first_named drug (db_drugs db) of
        None \<Rightarrow> None
      | Some d \<Rightarrow> if pediatric (ag age) then child_dose d else adult_dose d)"

text \<open>
  \<open>max_daily_mg\<close>: \<open>if not m\<close> holds for an absent entry and for an empty dict, here
  an entry with neither field.
\<close>

definition max_daily_mg ::
  "drug_db \<Rightarrow> (int \<Rightarrow> string) \<Rightarrow> string \<Rightarrow> int \<Rightarrow> int option" where
  "max_daily_mg db ag drug age =
     (case db_max_daily_dose_mg db drug of
        None \<Rightarrow> None
      | Some m \<Rightarrow>
          if adult m = None \<and> child m = None then None
          else if pediatric (ag age) then child m else adult m)"

text \<open>
  \<open>interactions_for\<close>: three nested loops. The innermost scans the whole interaction
  table for the pair at hand and appends every record whose pair, as a set, is
  \<open>{a, b}\<close>; the two outer loops run over the same list of names, skip \<open>a >= b\<close> and
  every key already in the set \<open>pairs\<close>, and thread \<open>pairs\<close> and \<open>out\<close> along.
\<close>

fun scan_table :: "string \<Rightarrow> string \<Rightarrow> interaction list \<Rightarrow> interaction list \<Rightarrow> interaction list" where
  "scan_table a b [] out = out"
| "scan_table a b (it # its) out =
     scan_table a b its (if set (pair it) = {a, b} then out @ [it] else out)"

fun inner_loop ::
  "drug_db \<Rightarrow> string \<Rightarrow> string list \<Rightarrow> (string \<times> string) set \<times> interaction list
     \<Rightarrow> (string \<times> string) set \<times> interaction list" where
  "inner_loop db a [] st = st"
| "inner_loop db a (b # bs) (pairs, out) =
     (if b \<le> a then inner_loop db a bs (pairs, out)
      else if (a, b) \<in> pairs then inner_loop db a bs (pairs, out)
      else inner_loop db a bs (insert (a, b) pairs, scan_table a b (db_interactions db) out))"

fun outer_loop ::
  "drug_db \<Rightarrow> string list \<Rightarrow> string list \<Rightarrow> (string \<times> string) set \<times> interaction list
     \<Rightarrow> (string \<times> string) set \<times> interaction list" where
  "outer_loop db [] drugs st = st"
| "outer_loop db (a # as) drugs st = outer_loop db as drugs (inner_loop db a drugs st)"

definition interactions_for :: "drug_db \<Rightarrow> string list \<Rightarrow> interaction list" where
  "interactions_for db drugs = snd (outer_loop db drugs drugs ({}, []))"

definition alternatives :: "drug_db \<Rightarrow> string \<Rightarrow> string list" where
  "alternatives db drug = (case db_alternatives db drug of None \<Rightarrow> [] | Some xs \<Rightarrow> xs)"

section \<open>GraniteClient\<close>


record entry =
  drug :: string
  dose_mg :: "int option"
  frequency_per_day :: "int option"




section \<open>Analyzer\<close>

text \<open>
  An explicit drug is a dict read with \<open>get\<close> throughout: \<open>raw_drug\<close> is \<open>None\<close> when
  the key is absent, and \<open>d.get("drug", "")\<close> is then the empty string. The entries
  that \<open>extract\<close> returns and \<open>check\<close> reads carry the key \<open>drug\<close> (\<open>check\<close> reads it
  by index) and the two optional numbers. \<open>Analyzer.extract\<close> is \<open>analyzer_extract\<close> here.
  \<open>parse_prescription\<close> lives in \<open>utils\<close>,
  which is not part of the sources at hand: \<open>extract\<close> takes it as the parameter
  \<open>parse\<close>.
\<close>

record raw_entry =
  raw_drug :: "string option"
  raw_dose_mg :: "int option"
  raw_frequency_per_day :: "int option"

definition get_drug :: "raw_entry \<Rightarrow> string" where
  "get_drug d = (case raw_drug d of None \<Rightarrow> [] | Some s \<Rightarrow> s)"

text \<open>\<open>normalize(raw) or raw\<close>: the right operand also when the canonical name is empty.\<close>

definition clean :: "drug_db \<Rightarrow> raw_entry \<Rightarrow> entry" where
  "clean db d =
     \<lparr>drug = (case normalize db (get_drug d) of
                None \<Rightarrow> get_drug d
              | Some nm \<Rightarrow> if nm = [] then get_drug d else nm),
      dose_mg = raw_dose_mg d,
      frequency_per_day = raw_frequency_per_day d\<rparr>"


text \<open>
  \<open>check\<close>. Python's truth test on an optional number: \<open>None\<close> and \<open>0\<close> are false.
  The loop over the entries threads the dict \<open>recs\<close> and the list \<open>warnings\<close>.
\<close>

record warning =
  warn_drug :: string
  issue :: string
  computed_mg_per_day :: int
  warn_max_daily_mg :: int

record guidance =
  recommended_dose_for_age :: "string option"
  guide_max_daily_mg :: "int option"

record analysis_result =
  drugs_parsed :: "entry list"
  interactions :: "interaction list"
  dosage_guidance :: "string \<rightharpoonup> guidance"
  warnings :: "warning list"
  alternatives_for :: "string \<rightharpoonup> string list"

definition truthy :: "int option \<Rightarrow> bool" where
  "truthy v = (case v of None \<Rightarrow> False | Some n \<Rightarrow> n \<noteq> 0)"

definition total_of :: "int option \<Rightarrow> int option \<Rightarrow> int option" where
  "total_of dose freq =
     (if truthy dose \<and> truthy freq then Some (the dose * the freq) else None)"

fun check_loop ::
  "drug_db \<Rightarrow> (int \<Rightarrow> string) \<Rightarrow> int \<Rightarrow> entry list
     \<Rightarrow> (string \<rightharpoonup> guidance) \<times> warning list \<Rightarrow> (string \<rightharpoonup> guidance) \<times> warning list" where
  "check_loop db ag age [] st = st"
| "check_loop db ag age (it # items) (recs, warns) =
     (let nm = drug it;
          recommended = default_dose_for_age db ag nm age;
          max_daily = max_daily_mg db ag nm age;
          total = total_of (dose_mg it) (frequency_per_day it)
      in check_loop db ag age items
           (recs(nm \<mapsto> \<lparr>recommended_dose_for_age = recommended, guide_max_daily_mg = max_daily\<rparr>),
            if truthy total \<and> truthy max_daily \<and> the total > the max_daily
            then warns @ [\<lparr>warn_drug = nm, issue = ''Dose exceeds max daily limit'',
                           computed_mg_per_day = the total, warn_max_daily_mg = the max_daily\<rparr>]
            else warns))"

definition check :: "drug_db \<Rightarrow> (int \<Rightarrow> string) \<Rightarrow> entry list \<Rightarrow> int \<Rightarrow> analysis_result" where
  "check db ag items age =
     (let drugs = map drug items;
          found = interactions_for db drugs;
          (recs, warns) = check_loop db ag age items (Map.empty, []);
          alts = fold (\<lambda>nm m. m(nm \<mapsto> alternatives db nm)) drugs Map.empty
      in \<lparr>drugs_parsed = items, interactions = found, dosage_guidance = recs,
          warnings = warns, alternatives_for = alts\<rparr>)"

section \<open>The index of the specification\<close>








section \<open>Conditions on a dataset\<close>





section \<open>Example data\<close>

text \<open>
  Modelled from the spec: \<open>utils.age_group\<close> is not part of the sources at hand and the
  specification leaves its thresholds to configuration; the examples use a classifier
  with a child bracket below 13 years and an adolescent bracket below 18.
\<close>

definition age_group_example :: "int \<Rightarrow> string" where
  "age_group_example age =
     (if age < 13 then ''child'' else if age < 18 then ''adolescent'' else ''adult'')"

text \<open>
  Modelled from the spec: \<open>datasets/drug_data.json\<close> is not part of the sources at hand.
  The example dataset of the specification (Paracetamol with its doses, alias and
  maxima, and the moderate interaction of Paracetamol and Warfarin), with records for
  Warfarin and Ibuprofen and a second interaction added.
\<close>

definition paracetamol :: drug_record where
  "paracetamol = \<lparr>name = ''Paracetamol'', adult_dose = Some ''500mg q6h'',
     child_dose = Some ''250mg q6h'', aliases = [''Acetaminophen'']\<rparr>"

definition ibuprofen :: drug_record where
  "ibuprofen = \<lparr>name = ''Ibuprofen'', adult_dose = Some ''400mg q8h'',
     child_dose = Some ''200mg q8h'', aliases = [''Advil'']\<rparr>"

definition warfarin :: drug_record where
  "warfarin = \<lparr>name = ''Warfarin'', adult_dose = Some ''5mg daily'',
     child_dose = None, aliases = [''Coumadin'']\<rparr>"

definition para_warf :: interaction where
  "para_warf = \<lparr>pair = [''Paracetamol'', ''Warfarin''], severity = ''moderate'',
     note_text = ''Raised bleeding risk''\<rparr>"

definition ibu_warf :: interaction where
  "ibu_warf = \<lparr>pair = [''Ibuprofen'', ''Warfarin''], severity = ''major'',
     note_text = ''Bleeding risk''\<rparr>"


definition example_db :: drug_db where
  "example_db =
     \<lparr>db_drugs = [paracetamol, ibuprofen, warfarin],
      db_max_daily_dose_mg =
        [''Paracetamol'' \<mapsto> \<lparr>adult = Some 4000, child = Some 2000\<rparr>,
         ''Ibuprofen'' \<mapsto> \<lparr>adult = Some 2400, child = Some 1200\<rparr>],
      db_interactions = [para_warf, ibu_warf],
      db_alternatives = [''Ibuprofen'' \<mapsto> [''Paracetamol'']]\<rparr>"


text \<open>A dataset in which a drug must not be given to children: the child maximum is 0.\<close>

definition aspirin :: drug_record where
  "aspirin = \<lparr>name = ''Aspirin'', adult_dose = Some ''300mg q6h'',
     child_dose = Some ''Not recommended'', aliases = [''ASA'']\<rparr>"

definition aspirin_db :: drug_db where
  "aspirin_db =
     \<lparr>db_drugs = [aspirin],
      db_max_daily_dose_mg = [''Aspirin'' \<mapsto> \<lparr>adult = Some 4000, child = Some 0\<rparr>],
      db_interactions = [],
      db_alternatives = Map.empty\<rparr>"




section \<open>Notions used in the proofs\<close>

text \<open>
  What one pass of the loop of \<open>check\<close> appends to \<open>warnings\<close> and stores in \<open>recs\<close>,
  and the two parts of the invariant of the loops of \<open>interactions_for\<close>: the records
  matched by a key of \<open>pairs\<close>, and that every key of \<open>pairs\<close> is ascending.
\<close>

definition entry_warnings :: "drug_db \<Rightarrow> (int \<Rightarrow> string) \<Rightarrow> int \<Rightarrow> entry \<Rightarrow> warning list" where
  "entry_warnings db ag age it =
     (case (dose_mg it, frequency_per_day it, max_daily_mg db ag (drug it) age) of
        (Some d, Some f, Some m) \<Rightarrow>
          if d \<noteq> 0 \<and> f \<noteq> 0 \<and> m \<noteq> 0 \<and> m < d * f
          then [\<lparr>warn_drug = drug it, issue = ''Dose exceeds max daily limit'',
                 computed_mg_per_day = d * f, warn_max_daily_mg = m\<rparr>]
          else []
      | _ \<Rightarrow> [])"


definition keyed :: "(string \<times> string) set \<Rightarrow> interaction \<Rightarrow> bool" where
  "keyed P it \<longleftrightarrow> (\<exists>k \<in> P. set (pair it) = {fst k, snd k})"

definition ascending :: "(string \<times> string) set \<Rightarrow> bool" where
  "ascending P \<longleftrightarrow> (\<forall>k \<in> P. fst k < snd k)"

section \<open>Strings\<close>



lemma strip_strip: "strip (strip s) = strip s"
  unfolding strip_def
  by (metis (no_types, lifting) ext Nil_is_rev_conv dropWhile_eq_Nil_conv
    dropWhile_eq_self_iff dropWhile_last hd_dropWhile last_rev rev_swap)





section \<open>The loops of the interaction lookup\<close>

lemma scan_table_filter:
  "scan_table a b its out = out @ filter (\<lambda>it. set (pair it) = {a, b}) its"
  by (induction its arbitrary: out) simp_all

lemma ordered_doubleton:
  fixes a b x y :: string
  assumes "a < b" "x < y" "{a, b} = {x, y}"
  shows "a = x \<and> b = y"
  using assms by (auto simp: doubleton_eq_iff)

lemma mset_filter_disjoint:
  assumes "\<And>x. x \<in> set xs \<Longrightarrow> \<not> (P x \<and> Q x)"
  shows "mset (filter P xs) + mset (filter Q xs) = mset (filter (\<lambda>x. P x \<or> Q x) xs)"
  using assms by (induction xs) auto

lemma keyed_insert:
  "keyed (insert (a, b) P) it \<longleftrightarrow> set (pair it) = {a, b} \<or> keyed P it"
  by (auto simp: keyed_def)

lemma keyed_fresh:
  assumes "ascending P" "a < b" "(a, b) \<notin> P"
  shows "\<not> (keyed P it \<and> set (pair it) = {a, b})"
proof
  assume h: "keyed P it \<and> set (pair it) = {a, b}"
  then obtain k where k: "k \<in> P" "set (pair it) = {fst k, snd k}"
    by (auto simp: keyed_def)
  with assms(1) have "fst k < snd k" by (simp add: ascending_def)
  with assms(2) h k(2) have "a = fst k \<and> b = snd k"
    using ordered_doubleton [of a b "fst k" "snd k"] by simp
  with k(1) assms(3) show False by simp
qed

lemma inner_loop_inv:
  assumes "ascending P" "mset out = mset (filter (keyed P) (db_interactions db))"
  shows "ascending (fst (inner_loop db a bs (P, out))) \<and>
         mset (snd (inner_loop db a bs (P, out))) =
           mset (filter (keyed (fst (inner_loop db a bs (P, out)))) (db_interactions db)) \<and>
         fst (inner_loop db a bs (P, out)) = P \<union> {(a, b) | b. b \<in> set bs \<and> a < b}"
  using assms
proof (induction bs arbitrary: P out)
  case Nil
  then show ?case by simp
next
  case (Cons b bs)
  show ?case
  proof (cases "b \<le> a \<or> (a, b) \<in> P")
    case True
    then have eq: "inner_loop db a (b # bs) (P, out) = inner_loop db a bs (P, out)"
      by auto
    from True have s: "P \<union> {(a, c) | c. c \<in> set (b # bs) \<and> a < c} = P \<union> {(a, c) | c. c \<in> set bs \<and> a < c}"
      by auto
    show ?thesis unfolding eq s by (rule Cons.IH [OF Cons.prems])
  next
    case False
    then have ab: "a < b" "(a, b) \<notin> P" by auto
    let ?P = "insert (a, b) P"
    let ?out = "scan_table a b (db_interactions db) out"
    have step: "inner_loop db a (b # bs) (P, out) = inner_loop db a bs (?P, ?out)"
      using False by simp
    have asc: "ascending ?P" using Cons.prems(1) ab(1) by (simp add: ascending_def)
    have "mset ?out = mset (filter (keyed P) (db_interactions db)) +
                      mset (filter (\<lambda>it. set (pair it) = {a, b}) (db_interactions db))"
      using Cons.prems(2) by (simp add: scan_table_filter)
    also have "\<dots> = mset (filter (\<lambda>it. keyed P it \<or> set (pair it) = {a, b}) (db_interactions db))"
      by (rule mset_filter_disjoint) (rule keyed_fresh [OF Cons.prems(1) ab])
    also have "\<dots> = mset (filter (keyed ?P) (db_interactions db))"
      by (rule arg_cong [where f = mset], rule filter_cong) (auto simp: keyed_insert)
    finally have m: "mset ?out = mset (filter (keyed ?P) (db_interactions db))" .
    have s: "P \<union> {(a, c) | c. c \<in> set (b # bs) \<and> a < c} = ?P \<union> {(a, c) | c. c \<in> set bs \<and> a < c}"
      using ab(1) by auto
    show ?thesis unfolding step s by (rule Cons.IH [OF asc m])
  qed
qed

lemma outer_loop_inv:
  assumes "ascending P" "mset out = mset (filter (keyed P) (db_interactions db))"
  shows "mset (snd (outer_loop db as drugs (P, out))) =
           mset (filter (keyed (fst (outer_loop db as drugs (P, out)))) (db_interactions db)) \<and>
         fst (outer_loop db as drugs (P, out)) =
           P \<union> {(a, b) | a b. a \<in> set as \<and> b \<in> set drugs \<and> a < b}"
  using assms
proof (induction as arbitrary: P out)
  case Nil
  then show ?case by simp
next
  case (Cons a as)
  obtain P' out' where st: "inner_loop db a drugs (P, out) = (P', out')"
    by (cases "inner_loop db a drugs (P, out)")
  from inner_loop_inv [OF Cons.prems, of a drugs]
  have i: "ascending P'" "mset out' = mset (filter (keyed P') (db_interactions db))"
    and p: "P' = P \<union> {(a, b) | b. b \<in> set drugs \<and> a < b}"
    unfolding st fst_conv snd_conv by blast+
  have s: "P \<union> {(x, b) | x b. x \<in> set (a # as) \<and> b \<in> set drugs \<and> x < b} =
        P' \<union> {(x, b) | x b. x \<in> set as \<and> b \<in> set drugs \<and> x < b}"
    unfolding p by auto
  have step: "outer_loop db (a # as) drugs (P, out) = outer_loop db as drugs (P', out')"
    using st by simp
  show ?case unfolding step s by (rule Cons.IH [OF i])
qed

lemma interactions_for_mset:
  "mset (interactions_for db ds) =
     mset (filter (\<lambda>it. \<exists>a \<in> set ds. \<exists>b \<in> set ds. a < b \<and> set (pair it) = {a, b})
       (db_interactions db))"
proof -
  have "ascending {}" "mset [] = mset (filter (keyed {}) (db_interactions db))"
    by (simp_all add: ascending_def keyed_def)
  from outer_loop_inv [OF this, of ds ds]
  have "mset (interactions_for db ds) =
          mset (filter (keyed {(a, b) | a b. a \<in> set ds \<and> b \<in> set ds \<and> a < b}) (db_interactions db))"
    by (simp add: interactions_for_def)
  moreover have "keyed {(a, b) | a b. a \<in> set ds \<and> b \<in> set ds \<and> a < b} =
        (\<lambda>it. \<exists>a \<in> set ds. \<exists>b \<in> set ds. a < b \<and> set (pair it) = {a, b})"
    by (rule ext) (auto simp: keyed_def)
  ultimately show ?thesis by simp
qed






section \<open>The loop of the check\<close>

lemma check_loop_snd:
  "snd (check_loop db ag age items (recs, warns)) =
     warns @ concat (map (entry_warnings db ag age) items)"
proof (induction items arbitrary: recs warns)
  case Nil
  then show ?case by simp
next
  case (Cons it items)
  show ?case
    by (cases "dose_mg it"; cases "frequency_per_day it"; cases "max_daily_mg db ag (drug it) age")
       (simp_all add: Cons.IH Let_def entry_warnings_def total_of_def truthy_def)
qed



lemma check_warnings:
  "warnings (check db ag items age) = concat (map (entry_warnings db ag age) items)"
  using check_loop_snd [of db ag age items Map.empty "[]"]
  by (simp add: check_def Let_def split_beta)







lemma first_named_find: "first_named nm ds = find (\<lambda>d. name d = nm) ds"
  by (induction ds) simp_all

lemma first_named_unlisted: "nm \<notin> name ` set ds \<Longrightarrow> first_named nm ds = None"
  by (induction ds) auto


section \<open>The dose check and the interaction lookup\<close>

text \<open>
  C1 (dose exceedance). The claim: \<open>check\<close> warns for an entry exactly when its total
  is defined, the maximum for the age bracket is known and the total is greater. The code
  tests the maximum for truth, so a configured maximum of 0 counts as unknown: for a
  child of 8 the dataset \<open>aspirin_db\<close> gives Aspirin the maximum 0, the entry of
  3 times 300 mg has the total 900, the guidance reports the maximum 0, and no warning
  is issued.
\<close>

theorem check_zero_maximum:
  "max_daily_mg aspirin_db age_group_example ''Aspirin'' 8 = Some 0 \<and>
   total_of (Some 300) (Some 3) = Some 900 \<and>
   warnings (check aspirin_db age_group_example
     [\<lparr>drug = ''Aspirin'', dose_mg = Some 300, frequency_per_day = Some 3\<rparr>] 8) = [] \<and>
   dosage_guidance (check aspirin_db age_group_example
     [\<lparr>drug = ''Aspirin'', dose_mg = Some 300, frequency_per_day = Some 3\<rparr>] 8) ''Aspirin'' =
     Some \<lparr>recommended_dose_for_age = Some ''Not recommended'', guide_max_daily_mg = Some 0\<rparr>"
  by code_simp

text \<open>
  The rule that the loop of \<open>check\<close> follows. The warnings of a list are those of its
  entries, in order. An entry with a positive dose and frequency and a known maximum
  other than 0 is warned about exactly when the product exceeds the maximum, strictly:
  a product equal to the maximum gives no warning, and the warning carries the product
  and the maximum. Without a dose, a frequency or a maximum there is no warning.
\<close>

theorem check_warning_rule:
  "warnings (check db ag items age) = concat (map (\<lambda>e. warnings (check db ag [e] age)) items) \<and>
   (dose_mg e = Some d \<and> frequency_per_day e = Some f \<and> 0 < d \<and> 0 < f \<and>
    max_daily_mg db ag (drug e) age = Some m \<and> m \<noteq> 0 \<longrightarrow>
      warnings (check db ag [e] age) =
        (if m < d * f
         then [\<lparr>warn_drug = drug e, issue = ''Dose exceeds max daily limit'',
                computed_mg_per_day = d * f, warn_max_daily_mg = m\<rparr>]
         else [])) \<and>
   (dose_mg e \<in> {None, Some 0} \<or> frequency_per_day e \<in> {None, Some 0} \<or>
    max_daily_mg db ag (drug e) age = None \<longrightarrow> warnings (check db ag [e] age) = [])"
proof -
  have a: "warnings (check db ag items age) = concat (map (\<lambda>e. warnings (check db ag [e] age)) items)"
    by (simp add: check_warnings)
  have b: "dose_mg e = Some d \<and> frequency_per_day e = Some f \<and> 0 < d \<and> 0 < f \<and>
    max_daily_mg db ag (drug e) age = Some m \<and> m \<noteq> 0 \<longrightarrow>
      warnings (check db ag [e] age) =
        (if m < d * f
         then [\<lparr>warn_drug = drug e, issue = ''Dose exceeds max daily limit'',
                computed_mg_per_day = d * f, warn_max_daily_mg = m\<rparr>]
         else [])"
    by (simp add: check_warnings entry_warnings_def)
  have c: "dose_mg e \<in> {None, Some 0} \<or> frequency_per_day e \<in> {None, Some 0} \<or>
    max_daily_mg db ag (drug e) age = None \<longrightarrow> warnings (check db ag [e] age) = []"
    by (auto simp: check_warnings entry_warnings_def split: option.splits)
  from a b c show ?thesis by blast
qed

text \<open>
  An adult on Ibuprofen at the maximum of 2400 mg a day, and one milligram above it.
\<close>

theorem check_warning_rule_witness:
  "warnings (check example_db age_group_example
     [\<lparr>drug = ''Ibuprofen'', dose_mg = Some 800, frequency_per_day = Some 3\<rparr>] 30) = [] \<and>
   warnings (check example_db age_group_example
     [\<lparr>drug = ''Ibuprofen'', dose_mg = Some 2401, frequency_per_day = Some 1\<rparr>] 30) =
     [\<lparr>warn_drug = ''Ibuprofen'', issue = ''Dose exceeds max daily limit'',
       computed_mg_per_day = 2401, warn_max_daily_mg = 2400\<rparr>]"
proof -
  have m: "max_daily_mg example_db age_group_example ''Ibuprofen'' 30 = Some 2400"
    by code_simp
  let ?a = "\<lparr>drug = ''Ibuprofen'', dose_mg = Some 800, frequency_per_day = Some 3\<rparr>"
  let ?b = "\<lparr>drug = ''Ibuprofen'', dose_mg = Some 2401, frequency_per_day = Some 1\<rparr>"
  from m check_warning_rule [of example_db age_group_example "[]" 30 ?a 800 3 2400]
  have "warnings (check example_db age_group_example [?a] 30) = []"
    by simp
  moreover from m check_warning_rule [of example_db age_group_example "[]" 30 ?b 2401 1 2400]
  have "warnings (check example_db age_group_example [?b] 30) =
     [\<lparr>warn_drug = ''Ibuprofen'', issue = ''Dose exceeds max daily limit'',
       computed_mg_per_day = 2401, warn_max_daily_mg = 2400\<rparr>]"
    by simp
  ultimately show ?thesis by blast
qed

text \<open>
  The records that \<open>interactions_for\<close> returns, as a set and with their multiplicities.
\<close>

lemma ascending_pair_iff:
  fixes S :: "string set"
  shows "(\<exists>a \<in> S. \<exists>b \<in> S. a < b \<and> X = {a, b}) \<longleftrightarrow> (\<exists>a \<in> S. \<exists>b \<in> S. a \<noteq> b \<and> X = {a, b})"
proof
  assume "\<exists>a \<in> S. \<exists>b \<in> S. a < b \<and> X = {a, b}"
  then obtain a b where "a \<in> S" "b \<in> S" "a < b" "X = {a, b}" by blast
  moreover from this have "a \<noteq> b" by simp
  ultimately show "\<exists>a \<in> S. \<exists>b \<in> S. a \<noteq> b \<and> X = {a, b}" by blast
next
  assume "\<exists>a \<in> S. \<exists>b \<in> S. a \<noteq> b \<and> X = {a, b}"
  then obtain a b where ab: "a \<in> S" "b \<in> S" "a \<noteq> b" "X = {a, b}" by blast
  show "\<exists>a \<in> S. \<exists>b \<in> S. a < b \<and> X = {a, b}"
  proof (cases "a < b")
    case True
    with ab show ?thesis by blast
  next
    case False
    with ab(3) have "b < a" by simp
    moreover from ab(4) have "X = {b, a}" by (simp add: insert_commute)
    ultimately show ?thesis using ab(1,2) by blast
  qed
qed

lemma interactions_for_set:
  "set (interactions_for db ds) =
     {it \<in> set (db_interactions db). \<exists>a \<in> set ds. \<exists>b \<in> set ds. a \<noteq> b \<and> set (pair it) = {a, b}}"
proof -
  have "set (interactions_for db ds) = set_mset (mset (interactions_for db ds))"
    by simp
  also have "\<dots> = set (filter (\<lambda>it. \<exists>a \<in> set ds. \<exists>b \<in> set ds. a < b \<and> set (pair it) = {a, b})
       (db_interactions db))"
    by (simp only: interactions_for_mset set_mset_mset)
  finally show ?thesis by (simp add: ascending_pair_iff)
qed

lemma interactions_for_count:
  "count (mset (interactions_for db ds)) it \<le> count (mset (db_interactions db)) it"
  by (simp add: interactions_for_mset)

lemma interactions_for_same_names:
  "set ds = set ds' \<Longrightarrow> mset (interactions_for db ds) = mset (interactions_for db ds')"
  by (simp add: interactions_for_mset)

text \<open>
  C2 (interaction lookup, amended). Input lists with the same names, in any order and
  with any repetitions, give the same records with the same multiplicities; no record is
  returned more often than the table holds it; the records returned are those of the table
  whose pair is two distinct names of the input, so a pair of one name twice never
  matches; and Warfarin with Paracetamol gives the one record of the example in either
  order. The order of the result is not fixed by the set of names: it follows the order
  of the input.
\<close>

theorem interactions_for_unordered:
  "(set ds = set ds' \<longrightarrow> mset (interactions_for db ds) = mset (interactions_for db ds')) \<and>
   count (mset (interactions_for db ds)) it \<le> count (mset (db_interactions db)) it \<and>
   set (interactions_for db ds) =
     {it \<in> set (db_interactions db). \<exists>a \<in> set ds. \<exists>b \<in> set ds. a \<noteq> b \<and> set (pair it) = {a, b}} \<and>
   interactions_for example_db [''Warfarin'', ''Paracetamol''] = [para_warf] \<and>
   interactions_for example_db [''Paracetamol'', ''Warfarin''] = [para_warf]"
proof -
  have "interactions_for example_db [''Warfarin'', ''Paracetamol''] = [para_warf]"
    by code_simp
  moreover have "interactions_for example_db [''Paracetamol'', ''Warfarin''] = [para_warf]"
    by code_simp
  ultimately show ?thesis
    using interactions_for_same_names [of ds ds' db] interactions_for_count [of db ds it]
      interactions_for_set [of db ds]
    by blast
qed

text \<open>
  The same three names, permuted and with one repeated.
\<close>

theorem interactions_for_unordered_witness:
  "mset (interactions_for example_db [''Ibuprofen'', ''Paracetamol'', ''Warfarin'']) =
   mset (interactions_for example_db [''Paracetamol'', ''Warfarin'', ''Ibuprofen'', ''Paracetamol''])"
proof -
  have "set [''Ibuprofen'', ''Paracetamol'', ''Warfarin''] =
        set [''Paracetamol'', ''Warfarin'', ''Ibuprofen'', ''Paracetamol'']"
    by code_simp
  with interactions_for_unordered [of "[''Ibuprofen'', ''Paracetamol'', ''Warfarin'']"
      "[''Paracetamol'', ''Warfarin'', ''Ibuprofen'', ''Paracetamol'']" example_db]
  show ?thesis by blast
qed

text \<open>
  C2 as stated fails: two orders of the same three names give the two records in
  different orders.
\<close>

theorem interactions_for_order_counterexample:
  "interactions_for example_db [''Ibuprofen'', ''Paracetamol'', ''Warfarin''] = [ibu_warf, para_warf] \<and>
   interactions_for example_db [''Paracetamol'', ''Ibuprofen'', ''Warfarin''] = [para_warf, ibu_warf] \<and>
   [ibu_warf, para_warf] \<noteq> [para_warf, ibu_warf]"
  by code_simp




section \<open>Extraction\<close>





lemma clean_fields:
  "dose_mg (clean db d) = raw_dose_mg d"
  "frequency_per_day (clean db d) = raw_frequency_per_day d"
  "normalize db (get_drug d) = None \<Longrightarrow> drug (clean db d) = get_drug d"
  "normalize db (get_drug d) = Some nm \<Longrightarrow> nm \<noteq> [] \<Longrightarrow> drug (clean db d) = nm"
  "normalize db (get_drug d) = Some [] \<Longrightarrow> drug (clean db d) = get_drug d"
  by (simp_all add: clean_def)




section \<open>The check, entry by entry\<close>









section \<open>Normalisation\<close>






section \<open>Doses by age bracket\<close>

text \<open>
  C9 (doses by bracket). \<open>default_dose_for_age\<close> returns the child dose of the first
  record with the given name when the bracket of the age is child or adolescent and its
  adult dose otherwise, and nothing when no record has the name; \<open>max_daily_mg\<close> selects
  in the same way from the entry of the table of maxima and returns nothing without an
  entry. In the example dataset, for any classifier that puts 8 in a pediatric bracket
  and 30 in none, Paracetamol has the doses 250mg q6h and 500mg q6h and the maxima 2000
  and 4000.
\<close>

theorem dose_by_bracket:
  "default_dose_for_age db ag nm age =
     (case find (\<lambda>d. name d = nm) (db_drugs db) of
        None \<Rightarrow> None
      | Some d \<Rightarrow> if ag age \<in> {''child'', ''adolescent''} then child_dose d else adult_dose d) \<and>
   max_daily_mg db ag nm age =
     (case db_max_daily_dose_mg db nm of
        None \<Rightarrow> None
      | Some m \<Rightarrow> if ag age \<in> {''child'', ''adolescent''} then child m else adult m) \<and>
   (nm \<notin> set (list_drugs db) \<longrightarrow> default_dose_for_age db ag nm age = None) \<and>
   (db_max_daily_dose_mg db nm = None \<longrightarrow> max_daily_mg db ag nm age = None) \<and>
   (ag 8 \<in> {''child'', ''adolescent''} \<and> ag 30 \<notin> {''child'', ''adolescent''} \<longrightarrow>
      default_dose_for_age example_db ag ''Paracetamol'' 8 = Some ''250mg q6h'' \<and>
      default_dose_for_age example_db ag ''Paracetamol'' 30 = Some ''500mg q6h'' \<and>
      max_daily_mg example_db ag ''Paracetamol'' 8 = Some 2000 \<and>
      max_daily_mg example_db ag ''Paracetamol'' 30 = Some 4000)"
proof -
  have p: "pediatric g \<longleftrightarrow> g \<in> {''child'', ''adolescent''}" for g
    by (auto simp: pediatric_def)
  have a: "default_dose_for_age db ag nm age =
     (case find (\<lambda>d. name d = nm) (db_drugs db) of
        None \<Rightarrow> None
      | Some d \<Rightarrow> if ag age \<in> {''child'', ''adolescent''} then child_dose d else adult_dose d)"
    by (simp only: default_dose_for_age_def first_named_find p)
  have b: "max_daily_mg db ag nm age =
     (case db_max_daily_dose_mg db nm of
        None \<Rightarrow> None
      | Some m \<Rightarrow> if ag age \<in> {''child'', ''adolescent''} then child m else adult m)"
    unfolding max_daily_mg_def p by (simp split: option.splits)
  have f: "first_named ''Paracetamol'' (db_drugs example_db) = Some paracetamol"
    by code_simp
  have m: "db_max_daily_dose_mg example_db ''Paracetamol'' = Some \<lparr>adult = Some 4000, child = Some 2000\<rparr>"
    by (simp add: example_db_def)
  have c: "ag 8 \<in> {''child'', ''adolescent''} \<and> ag 30 \<notin> {''child'', ''adolescent''} \<longrightarrow>
      default_dose_for_age example_db ag ''Paracetamol'' 8 = Some ''250mg q6h'' \<and>
      default_dose_for_age example_db ag ''Paracetamol'' 30 = Some ''500mg q6h'' \<and>
      max_daily_mg example_db ag ''Paracetamol'' 8 = Some 2000 \<and>
      max_daily_mg example_db ag ''Paracetamol'' 30 = Some 4000"
    unfolding default_dose_for_age_def max_daily_mg_def f m p
    by (simp add: paracetamol_def)
  have d: "nm \<notin> set (list_drugs db) \<longrightarrow> default_dose_for_age db ag nm age = None"
    by (simp add: default_dose_for_age_def first_named_unlisted list_drugs_def)
  have e: "db_max_daily_dose_mg db nm = None \<longrightarrow> max_daily_mg db ag nm age = None"
    by (simp add: max_daily_mg_def)
  from a b c d e show ?thesis by blast
qed

text \<open>
  The classifier of the examples.
\<close>

theorem dose_by_bracket_witness:
  "default_dose_for_age example_db age_group_example ''Paracetamol'' 8 = Some ''250mg q6h'' \<and>
   default_dose_for_age example_db age_group_example ''Paracetamol'' 30 = Some ''500mg q6h'' \<and>
   max_daily_mg example_db age_group_example ''Paracetamol'' 8 = Some 2000 \<and>
   max_daily_mg example_db age_group_example ''Paracetamol'' 30 = Some 4000"
proof -
  have "age_group_example 8 \<in> {''child'', ''adolescent''} \<and>
        age_group_example 30 \<notin> {''child'', ''adolescent''}"
    by (simp add: age_group_example_def)
  with dose_by_bracket [of example_db age_group_example "''Paracetamol''" 30]
  show ?thesis by blast
qed

section \<open>The entries returned\<close>

text \<open>
  C10 (parsed entries). The field \<open>drugs_parsed\<close> of the result of \<open>check\<close> is the list
  of entries it was given: the same entries in the same order, each with its three
  fields as they were.
\<close>

theorem check_drugs_parsed: "drugs_parsed (check db ag items age) = items"
  by (simp add: check_def Let_def split_beta)

end
